theory Spec2Isabelle
  imports Main
begin

section \<open>JavaScript values carried by the client\<close>

text \<open>
  The execution screen (ExecutionStep.jsx) receives JSON messages on a WebSocket and
  stores some of their fields verbatim in its React state. A field of a parsed message
  is any JSON value, or \<open>undefined\<close> when the field is absent. Numbers are only ever
  tested for truthiness by the code modelled here, so they are carried as integers.
\<close>

datatype jsval =
    JUndefined
  | JNull
  | JBool bool
  | JNum int
  | JStr string
  | JArr "jsval list"
  | JObj "(string \<times> jsval) list"

text \<open>JavaScript's ToBoolean, as used by \<open>c ? a : b\<close>, \<open>a || b\<close> and \<open>a && b\<close>.\<close>

fun truthy :: "jsval \<Rightarrow> bool" where
  "truthy JUndefined = False"
| "truthy JNull = False"
| "truthy (JBool b) = b"
| "truthy (JNum n) = (n \<noteq> 0)"
| "truthy (JStr s) = (s \<noteq> [])"
| "truthy (JArr xs) = True"
| "truthy (JObj kvs) = True"

text \<open>\<open>a || b\<close>: the left operand when it is truthy, else the right one.\<close>

definition js_or :: "jsval \<Rightarrow> jsval \<Rightarrow> jsval" where
  "js_or a b = (if truthy a then a else b)"

text \<open>\<open>Array.prototype.findIndex\<close>: the first index whose element satisfies the
  predicate, \<open>-1\<close> when there is none.\<close>

fun findIndexFrom :: "('a \<Rightarrow> bool) \<Rightarrow> 'a list \<Rightarrow> int \<Rightarrow> int" where
  "findIndexFrom P [] i = -1"
| "findIndexFrom P (x # xs) i = (if P x then i else findIndexFrom P xs (i + 1))"

definition findIndex :: "('a \<Rightarrow> bool) \<Rightarrow> 'a list \<Rightarrow> int" where
  "findIndex P xs = findIndexFrom P xs 0"

text \<open>\<open>Array.prototype.join\<close> on an array of strings.\<close>

fun join :: "string \<Rightarrow> string list \<Rightarrow> string" where
  "join sep [] = []"
| "join sep [x] = x"
| "join sep (x # y # ys) = x @ sep @ join sep (y # ys)"

section \<open>State of the ExecutionStep component\<close>

text \<open>One entry of \<open>executionSteps\<close>: \<open>{ name, status, message, logs }\<close>.\<close>

record exec_step =
  name :: string
  status :: jsval
  message :: jsval
  logs :: "jsval list"

text \<open>The \<open>options\<close> state (lines 34-42).\<close>

record options =
  runTerraform :: bool
  runAgents :: bool
  terraformServices :: "string list"
  terraformListing :: "string list"
  terraformDebug :: bool
  selectedAgents :: "string list"
  reportLanguage :: string

text \<open>The body of the \<open>api/execute/start\<close> request (lines 188-196).\<close>

record start_request =
  run_terraform :: bool
  run_agents :: bool
  terraform_services :: string
  terraform_listing :: string
  terraform_debug :: bool
  selected_agents :: string
  report_language :: string

text \<open>What the component does to the outside, in the order it does it.\<close>

datatype effect =
    ConnectWebSocket
  | SetInterval
  | ClearInterval
  | PostStart start_request
  | ScheduleOnNext
  | OnNext

text \<open>
  The \<open>useState\<close> cells of the component (lines 34-51). \<open>startTime\<close> is \<open>null\<close> or a
  number of milliseconds; \<open>error\<close> is \<open>null\<close>, a string, or whatever a message carried.
  \<open>effects\<close> is not a cell of the source: it records the outward calls made so far.
\<close>

record state =
  options :: options
  executing :: bool
  executionSteps :: "exec_step list"
  error :: jsval
  showLogs :: bool
  elapsedTime :: int
  startTime :: "int option"
  hasExistingReports :: bool
  effects :: "effect list"

definition initialOptions :: options where
  "initialOptions = \<lparr>
     runTerraform = True,
     runAgents = True,
     terraformServices = [''groups'', ''users'', ''compute'', ''jobs'', ''notebooks'', ''repos'',
       ''access'', ''secrets'', ''storage'', ''sql-endpoints'', ''dashboards''],
     terraformListing = [''compute'', ''jobs'', ''notebooks'', ''sql-endpoints''],
     terraformDebug = False,
     selectedAgents = [''terraform_reader'', ''ucx_analyst'', ''report_generator''],
     reportLanguage = ''pt-BR'' \<rparr>"

definition initialState :: state where
  "initialState = \<lparr>
     options = initialOptions,
     executing = False,
     executionSteps = [],
     error = JNull,
     showLogs = True,
     elapsedTime = 0,
     startTime = None,
     hasExistingReports = False,
     effects = [] \<rparr>"

section \<open>handleWebSocketMessage (lines 102-154)\<close>

text \<open>A parsed message \<open>data\<close>: the five fields the handler reads.\<close>

record ws_data =
  d_type :: jsval
  d_step :: jsval
  d_status :: jsval
  d_message :: jsval
  d_log :: jsval

text \<open>The predicate given to \<open>findIndex\<close> in both the status and the log branch.\<close>

definition stepMatches :: "ws_data \<Rightarrow> exec_step \<Rightarrow> bool" where
  "stepMatches d s \<longleftrightarrow>
     (d_step d = JStr ''terraform'' \<and> name s = ''Terraform Export'') \<or>
     (d_step d = JStr ''agents'' \<and> name s = ''AI Agents Analysis'')"

text \<open>The updater passed to \<open>setExecutionSteps\<close> for a \<open>status\<close> message.\<close>

definition statusUpdater :: "ws_data \<Rightarrow> exec_step list \<Rightarrow> exec_step list" where
  "statusUpdater d prev =
     (let updated = prev;
          stepIndex = findIndex (stepMatches d) updated
      in if stepIndex \<noteq> -1
         then updated[nat stepIndex := (updated ! nat stepIndex)
                \<lparr> status := d_status d,
                  message := d_message d,
                  logs := (if truthy (d_log d)
                           then logs (updated ! nat stepIndex) @ [d_log d]
                           else logs (updated ! nat stepIndex)) \<rparr>]
         else updated)"

text \<open>The updater passed to \<open>setExecutionSteps\<close> for a \<open>log\<close> message.\<close>

definition logUpdater :: "ws_data \<Rightarrow> exec_step list \<Rightarrow> exec_step list" where
  "logUpdater d prev =
     (let updated = prev;
          stepIndex = findIndex (stepMatches d) updated
      in if stepIndex \<noteq> -1
         then updated[nat stepIndex := (updated ! nat stepIndex)
                \<lparr> logs := logs (updated ! nat stepIndex) @ [d_message d] \<rparr>]
         else updated)"

definition handleWebSocketMessage :: "ws_data \<Rightarrow> state \<Rightarrow> state" where
  "handleWebSocketMessage d st =
     (if d_type d = JStr ''status''
      then st\<lparr> executionSteps := statusUpdater d (executionSteps st) \<rparr>
      else if d_type d = JStr ''log''
      then st\<lparr> executionSteps := logUpdater d (executionSteps st) \<rparr>
      else if d_type d = JStr ''completed''
      then st\<lparr> executing := False,
               hasExistingReports := True,
               effects := effects st @ [ScheduleOnNext] \<rparr>
      else if d_type d = JStr ''error''
      then st\<lparr> error := d_message d, executing := False \<rparr>
      else if d_type d = JStr ''stopped''
      then st\<lparr> executing := False, error := JStr ''Execution stopped by user.'' \<rparr>
      else st)"

text \<open>Messages handled one after the other, in the order the socket delivers them.\<close>

fun handleMessages :: "ws_data list \<Rightarrow> state \<Rightarrow> state" where
  "handleMessages [] st = st"
| "handleMessages (d # ds) st = handleMessages ds (handleWebSocketMessage d st)"

section \<open>handleExecute (lines 156-202)\<close>

text \<open>The \<open>steps\<close> array built by the two \<open>push\<close> calls (lines 164-170).\<close>

definition terraformStep :: exec_step where
  "terraformStep =
     \<lparr> name = ''Terraform Export'', status = JStr ''pending'', message = JStr [], logs = [] \<rparr>"

definition agentsStep :: exec_step where
  "agentsStep =
     \<lparr> name = ''AI Agents Analysis'', status = JStr ''pending'', message = JStr [], logs = [] \<rparr>"

definition buildSteps :: "options \<Rightarrow> exec_step list" where
  "buildSteps opts =
     (let steps = [];
          steps = (if runTerraform opts then steps @ [terraformStep] else steps);
          steps = (if runAgents opts then steps @ [agentsStep] else steps)
      in steps)"

text \<open>\<open>agentsToRun\<close> (lines 184-186): the selection, with \<open>'report_generator'\<close> appended
  when \<open>includes\<close> does not find it.\<close>

definition agentsToRun :: "options \<Rightarrow> string list" where
  "agentsToRun opts =
     (if ''report_generator'' \<in> set (selectedAgents opts)
      then selectedAgents opts
      else selectedAgents opts @ [''report_generator''])"

definition startRequest :: "options \<Rightarrow> start_request" where
  "startRequest opts = \<lparr>
     run_terraform = runTerraform opts,
     run_agents = runAgents opts,
     terraform_services = join '','' (terraformServices opts),
     terraform_listing = join '','' (terraformListing opts),
     terraform_debug = terraformDebug opts,
     selected_agents = join '','' (agentsToRun opts),
     report_language = reportLanguage opts \<rparr>"

text \<open>
  \<open>handleExecute\<close> up to the \<open>await\<close>: \<open>now\<close> is what \<open>Date.now()\<close> returns at line 159.
  The request is posted whatever the state was: the function itself has no guard.
\<close>

definition handleExecute :: "int \<Rightarrow> state \<Rightarrow> state" where
  "handleExecute now st =
     st\<lparr> executing := True,
         error := JNull,
         startTime := Some now,
         elapsedTime := 0,
         hasExistingReports := False,
         executionSteps := buildSteps (options st),
         effects := effects st @
           [ConnectWebSocket, SetInterval, PostStart (startRequest (options st))] \<rparr>"

text \<open>The \<open>catch\<close> block (lines 197-201), run when the awaited request is rejected;
  \<open>detail\<close> is \<open>error.response?.data?.detail\<close>.\<close>

definition handleExecuteCatch :: "jsval \<Rightarrow> state \<Rightarrow> state" where
  "handleExecuteCatch detail st =
     st\<lparr> error := js_or detail (JStr ''Failed to start execution''),
         executing := False,
         effects := effects st @ [ClearInterval] \<rparr>"

section \<open>The two elapsed-time timers\<close>

text \<open>
  The callback of the interval started inside \<open>handleExecute\<close> (lines 178-180):
  \<open>Math.floor((Date.now() - Date.now()) / 1000)\<close>. \<open>now1\<close> and \<open>now2\<close> are the results of
  the left and of the right call, in that order. On integers, \<open>Math.floor(x / 1000)\<close> is
  \<open>x div 1000\<close>. The interval is cleared only in the \<open>catch\<close> block.
\<close>

definition executeTimerTick :: "int \<Rightarrow> int \<Rightarrow> state \<Rightarrow> state" where
  "executeTimerTick now1 now2 st = st\<lparr> elapsedTime := (now1 - now2) div 1000 \<rparr>"

text \<open>
  The callback of the interval of the effect (lines 205-212), which exists while
  \<open>executing && startTime\<close> is truthy (a start time of \<open>0\<close> is falsy).
\<close>

definition effectTimerActive :: "state \<Rightarrow> bool" where
  "effectTimerActive st \<longleftrightarrow>
     executing st \<and> (case startTime st of None \<Rightarrow> False | Some t \<Rightarrow> t \<noteq> 0)"

definition effectTimerTick :: "int \<Rightarrow> state \<Rightarrow> state" where
  "effectTimerTick now st =
     (case startTime st of
        None \<Rightarrow> st
      | Some t \<Rightarrow> if effectTimerActive st then st\<lparr> elapsedTime := (now - t) div 1000 \<rparr> else st)"

section \<open>The result listing\<close>

text \<open>One entry of \<open>response.data.reports\<close> of \<open>api/results/list\<close>.\<close>

record report_entry =
  agent :: jsval
  filename :: jsval
  exists :: jsval

text \<open>An awaited request: rejected (anything thrown inside the \<open>try\<close> block, with
  \<open>error.response?.data?.detail\<close>), or resolved with its payload.\<close>

datatype 'a api_result = Rejected jsval | Resolved 'a

text \<open>\<open>checkExistingReports\<close>, run once on mount (lines 54-68).\<close>

definition checkExistingReports :: "report_entry list api_result \<Rightarrow> state \<Rightarrow> state" where
  "checkExistingReports response st =
     (case response of
        Rejected detail \<Rightarrow> st
      | Resolved reports \<Rightarrow>
          (let existingReports = filter (\<lambda>r. truthy (exists r)) reports
           in if length existingReports > 0 then st\<lparr> hasExistingReports := True \<rparr> else st))"

text \<open>The state of the results screen (ResultsStep) that the listing feeds.\<close>

record results_state =
  rs_reports :: "report_entry list"
  rs_selectedReport :: "report_entry option"
  rs_report :: "jsval option"
  rs_loading :: bool
  rs_error :: jsval

definition initialResults :: results_state where
  "initialResults = \<lparr>
     rs_reports = [],
     rs_selectedReport = None,
     rs_report = None,
     rs_loading = True,
     rs_error = JNull \<rparr>"

text \<open>\<open>loadReport\<close>: it catches its own failure and always ends with \<open>setLoading(false)\<close>.\<close>

definition loadReport :: "jsval api_result \<Rightarrow> results_state \<Rightarrow> results_state" where
  "loadReport response st =
     (let st1 = st\<lparr> rs_loading := True, rs_error := JNull \<rparr>;
          st2 = (case response of
                   Resolved content \<Rightarrow> st1\<lparr> rs_report := Some content \<rparr>
                 | Rejected detail \<Rightarrow> st1\<lparr> rs_error := js_or detail (JStr ''Failed to load report'') \<rparr>)
      in st2\<lparr> rs_loading := False \<rparr>)"

text \<open>\<open>loadReportsList\<close>: \<open>listing\<close> is the awaited listing, \<open>content\<close> the awaited
  report, asked for only when the consolidated report is listed.\<close>

definition loadReportsList ::
  "report_entry list api_result \<Rightarrow> jsval api_result \<Rightarrow> results_state \<Rightarrow> results_state" where
  "loadReportsList listing content st =
     (let st1 = st\<lparr> rs_loading := True, rs_error := JNull \<rparr>;
          st2 = (case listing of
                   Rejected detail \<Rightarrow>
                     st1\<lparr> rs_error := js_or detail (JStr ''Failed to load reports list'') \<rparr>
                 | Resolved reports \<Rightarrow>
                     (let availableReports = filter (\<lambda>r. truthy (exists r)) reports;
                          st3 = st1\<lparr> rs_reports := availableReports \<rparr>
                      in case find (\<lambda>r. agent r = JStr ''report_generator'') availableReports of
                           None \<Rightarrow> st3
                         | Some consolidatedReport \<Rightarrow>
                             loadReport content
                               (st3\<lparr> rs_selectedReport := Some consolidatedReport \<rparr>)))
      in st2\<lparr> rs_loading := False \<rparr>)"

section \<open>What the rendered controls do\<close>

text \<open>\<open>allCompleted\<close> (lines 243-245).\<close>

definition allCompleted :: "state \<Rightarrow> bool" where
  "allCompleted st \<longleftrightarrow>
     (length (executionSteps st) > 0 \<and>
      list_all (\<lambda>step. status step = JStr ''completed'') (executionSteps st)) \<or>
     hasExistingReports st"

text \<open>The \<open>disabled\<close> property of the main button (line 608).\<close>

definition startDisabled :: "state \<Rightarrow> bool" where
  "startDisabled st \<longleftrightarrow>
     executing st \<or> (\<not> runTerraform (options st) \<and> \<not> runAgents (options st))"

text \<open>
  The user's clicks and the asynchronous completions, each with the guard the JSX gives
  its control:
  \<^item> the main button (lines 605-612) is disabled by \<open>startDisabled\<close>, and calls
    \<open>onNext\<close> when \<open>allCompleted\<close>, \<open>handleExecute\<close> otherwise;
  \<^item> the "Run Again" button (lines 596-604) is rendered when \<open>allCompleted\<close>, has no
    \<open>disabled\<close> property and calls \<open>handleExecute\<close>;
  \<^item> the "Retry" button (lines 262-272) is rendered when \<open>error\<close> is truthy, has no
    \<open>disabled\<close> property and calls \<open>setError(null)\<close>, then \<open>handleExecute\<close>;
  \<^item> the two stage checkboxes (lines 285-306) are disabled while \<open>executing\<close> and store
    the toggled value;
  \<^item> an agent checkbox (lines 459-481) is disabled while \<open>executing\<close> or when the agent
    is locked (only \<open>report_generator\<close> is); checking appends the id to
    \<open>selectedAgents\<close>, unchecking filters it out.
\<close>

datatype action =
    ClickStart int
  | ClickRunAgain int
  | ClickRetry int
  | ClickRunTerraform
  | ClickRunAgents
  | ClickAgent string
  | Receive ws_data
  | StartRejected jsval
  | ListingArrived "report_entry list api_result"

definition clickAgent :: "string \<Rightarrow> state \<Rightarrow> state" where
  "clickAgent a st =
     (if a \<notin> set [''terraform_reader'', ''ucx_analyst'', ''report_generator''] then st
      else if executing st \<or> a = ''report_generator'' then st
      else if a \<notin> set (selectedAgents (options st))
      then st\<lparr> options := (options st)\<lparr> selectedAgents := selectedAgents (options st) @ [a] \<rparr> \<rparr>
      else st\<lparr> options := (options st)
             \<lparr> selectedAgents := filter (\<lambda>x. x \<noteq> a) (selectedAgents (options st)) \<rparr> \<rparr>)"

fun dispatch :: "action \<Rightarrow> state \<Rightarrow> state" where
  "dispatch (ClickStart now) st =
     (if startDisabled st then st
      else if allCompleted st then st\<lparr> effects := effects st @ [OnNext] \<rparr>
      else handleExecute now st)"
| "dispatch (ClickRunAgain now) st =
     (if allCompleted st then handleExecute now st else st)"
| "dispatch (ClickRetry now) st =
     (if truthy (error st) then handleExecute now (st\<lparr> error := JNull \<rparr>) else st)"
| "dispatch ClickRunTerraform st =
     (if executing st then st
      else st\<lparr> options := (options st)\<lparr> runTerraform := \<not> runTerraform (options st) \<rparr> \<rparr>)"
| "dispatch ClickRunAgents st =
     (if executing st then st
      else st\<lparr> options := (options st)\<lparr> runAgents := \<not> runAgents (options st) \<rparr> \<rparr>)"
| "dispatch (ClickAgent a) st = clickAgent a st"
| "dispatch (Receive d) st = handleWebSocketMessage d st"
| "dispatch (StartRejected detail) st = handleExecuteCatch detail st"
| "dispatch (ListingArrived response) st = checkExistingReports response st"

fun run :: "action list \<Rightarrow> state \<Rightarrow> state" where
  "run [] st = st"
| "run (a # as) st = run as (dispatch a st)"

text \<open>The start requests posted so far.\<close>

fun startRequests :: "effect list \<Rightarrow> start_request list" where
  "startRequests [] = []"
| "startRequests (PostStart r # es) = r # startRequests es"
| "startRequests (e # es) = startRequests es"

section \<open>The lines a message adds to a step\<close>

text \<open>
  Not a function of the source: the lines that the handler appends to the logs of the step
  at index \<open>j\<close> for one message, read off its two updaters. A \<open>log\<close> message adds its
  \<open>message\<close> to the step it matches; a \<open>status\<close> message adds its \<open>log\<close> field when
  that is truthy; nothing else adds a line.
\<close>

definition linesAppended :: "ws_data \<Rightarrow> exec_step list \<Rightarrow> nat \<Rightarrow> jsval list" where
  "linesAppended d steps j =
     (if findIndex (stepMatches d) steps = int j
      then (if d_type d = JStr ''log'' then [d_message d]
            else if d_type d = JStr ''status'' \<and> truthy (d_log d) then [d_log d]
            else [])
      else [])"

section \<open>Facts about findIndex\<close>

lemma findIndexFrom_none:
  "0 \<le> i \<Longrightarrow> findIndexFrom P xs i = -1 \<longleftrightarrow> (\<forall>x \<in> set xs. \<not> P x)"
proof (induction xs arbitrary: i)
  case Nil
  then show ?case by simp
next
  case (Cons x xs)
  have "0 \<le> i + 1" using Cons.prems by simp
  from Cons.IH [OF this] Cons.prems show ?case by auto
qed

lemma findIndex_none: "findIndex P xs = -1 \<longleftrightarrow> (\<forall>x \<in> set xs. \<not> P x)"
  by (simp add: findIndex_def findIndexFrom_none)

lemma findIndexFrom_some:
  "0 \<le> i \<Longrightarrow> findIndexFrom P xs i \<noteq> -1 \<Longrightarrow>
     \<exists>k < length xs. findIndexFrom P xs i = i + int k \<and> P (xs ! k) \<and> (\<forall>j < k. \<not> P (xs ! j))"
proof (induction xs arbitrary: i)
  case Nil
  then show ?case by simp
next
  case (Cons x xs)
  show ?case
  proof (cases "P x")
    case True
    then show ?thesis by (intro exI [of _ 0]) simp
  next
    case False
    have nonneg: "0 \<le> i + 1" using Cons.prems by simp
    have "findIndexFrom P xs (i + 1) \<noteq> -1" using Cons.prems False by simp
    from Cons.IH [OF nonneg this] obtain k where k: "k < length xs"
      "findIndexFrom P xs (i + 1) = i + 1 + int k" "P (xs ! k)" "\<forall>j < k. \<not> P (xs ! j)"
      by blast
    have "\<forall>j < Suc k. \<not> P ((x # xs) ! j)"
      using False k(4) by (auto simp: less_Suc_eq_0_disj)
    then show ?thesis
      using k False by (intro exI [of _ "Suc k"]) simp
  qed
qed

lemma findIndex_some:
  assumes "findIndex P xs \<noteq> -1"
  shows "0 \<le> findIndex P xs" and "nat (findIndex P xs) < length xs"
    and "P (xs ! nat (findIndex P xs))"
    and "\<forall>j < nat (findIndex P xs). \<not> P (xs ! j)"
proof -
  from assms have "findIndexFrom P xs 0 \<noteq> -1" by (simp add: findIndex_def)
  from findIndexFrom_some [OF _ this] obtain k where k: "k < length xs"
    "findIndex P xs = int k" "P (xs ! k)" "\<forall>j < k. \<not> P (xs ! j)"
    by (auto simp: findIndex_def)
  show "0 \<le> findIndex P xs" using k by simp
  show "nat (findIndex P xs) < length xs" using k by simp
  show "P (xs ! nat (findIndex P xs))" using k by simp
  show "\<forall>j < nat (findIndex P xs). \<not> P (xs ! j)" using k by simp
qed

text \<open>The answer depends only on which elements satisfy the predicate.\<close>

lemma findIndexFrom_cong_map:
  "map P xs = map Q ys \<Longrightarrow> findIndexFrom P xs i = findIndexFrom Q ys i"
proof (induction xs arbitrary: ys i)
  case Nil
  then show ?case by simp
next
  case (Cons x xs)
  then obtain y ys' where "ys = y # ys'" by (cases ys) auto
  with Cons show ?case by auto
qed

section \<open>Names, lengths and logs under messages\<close>

lemma stepMatches_names:
  "map name xs = map name ys \<Longrightarrow> map (stepMatches d) xs = map (stepMatches d) ys"
proof (induction xs arbitrary: ys)
  case Nil
  then show ?case by simp
next
  case (Cons x xs)
  then obtain y ys' where "ys = y # ys'" by (cases ys) auto
  with Cons show ?case by (auto simp: stepMatches_def)
qed

lemma findIndex_names:
  "map name xs = map name ys \<Longrightarrow>
     findIndex (stepMatches d) xs = findIndex (stepMatches d) ys"
  unfolding findIndex_def
  by (rule findIndexFrom_cong_map) (rule stepMatches_names)

lemma statusUpdater_names: "map name (statusUpdater d prev) = map name prev"
proof (cases "findIndex (stepMatches d) prev = -1")
  case True
  then show ?thesis by (simp add: statusUpdater_def)
next
  case False
  from findIndex_some(2) [OF False] show ?thesis
    using False by (simp add: statusUpdater_def Let_def map_update list_update_same_conv)
qed

lemma logUpdater_names: "map name (logUpdater d prev) = map name prev"
proof (cases "findIndex (stepMatches d) prev = -1")
  case True
  then show ?thesis by (simp add: logUpdater_def)
next
  case False
  from findIndex_some(2) [OF False] show ?thesis
    using False by (simp add: logUpdater_def Let_def map_update list_update_same_conv)
qed

lemma handleWebSocketMessage_names:
  "map name (executionSteps (handleWebSocketMessage d st)) = map name (executionSteps st)"
  by (simp add: handleWebSocketMessage_def statusUpdater_names logUpdater_names)

lemma handleWebSocketMessage_length:
  "length (executionSteps (handleWebSocketMessage d st)) = length (executionSteps st)"
  using handleWebSocketMessage_names [of d st] by (metis length_map)

lemma linesAppended_names:
  "map name xs = map name ys \<Longrightarrow> linesAppended d xs j = linesAppended d ys j"
  by (simp add: linesAppended_def findIndex_names [of xs ys])

lemma handleWebSocketMessage_logs:
  assumes "j < length (executionSteps st)"
  shows "logs (executionSteps (handleWebSocketMessage d st) ! j) =
         logs (executionSteps st ! j) @ linesAppended d (executionSteps st) j"
proof (cases "findIndex (stepMatches d) (executionSteps st) = -1")
  case True
  then show ?thesis
    by (simp add: handleWebSocketMessage_def statusUpdater_def logUpdater_def linesAppended_def)
next
  case False
  note some = findIndex_some(1,2) [OF False]
  show ?thesis
  proof (cases "findIndex (stepMatches d) (executionSteps st) = int j")
    case True
    then have "nat (findIndex (stepMatches d) (executionSteps st)) = j" by simp
    then show ?thesis
      using assms True
      by (simp add: handleWebSocketMessage_def statusUpdater_def logUpdater_def
          linesAppended_def Let_def)
  next
    case neq: False
    then have "nat (findIndex (stepMatches d) (executionSteps st)) \<noteq> j"
      using some(1) by auto
    then show ?thesis
      using assms neq
      by (simp add: handleWebSocketMessage_def statusUpdater_def logUpdater_def
          linesAppended_def Let_def)
  qed
qed

lemma handleMessages_names:
  "map name (executionSteps (handleMessages ds st)) = map name (executionSteps st)"
  by (induction ds arbitrary: st) (simp_all add: handleWebSocketMessage_names)

section \<open>Frame of a message for an unknown step\<close>

text \<open>
  Claim C9. A message whose \<open>step\<close> field is neither \<open>'terraform'\<close> nor \<open>'agents'\<close>
  matches no entry of \<open>executionSteps\<close>, so \<open>findIndex\<close> answers \<open>-1\<close> and the handler
  gives back the list it was given: same length, same entries, nothing added. This holds
  for status and log messages (the only ones that reach \<open>setExecutionSteps\<close>) and for
  every other message type as well.
\<close>

theorem handleWebSocketMessage_unknown_step_frame:
  assumes "d_step d \<noteq> JStr ''terraform''" and "d_step d \<noteq> JStr ''agents''"
  shows "executionSteps (handleWebSocketMessage d st) = executionSteps st"
proof -
  have "\<forall>s \<in> set (executionSteps st). \<not> stepMatches d s"
    using assms by (simp add: stepMatches_def)
  then have "findIndex (stepMatches d) (executionSteps st) = -1"
    by (simp add: findIndex_none)
  then show ?thesis
    by (simp add: handleWebSocketMessage_def statusUpdater_def logUpdater_def)
qed

theorem handleWebSocketMessage_unknown_step_frame_witness:
  "d_step \<lparr> d_type = JStr ''status'', d_step = JStr ''export'', d_status = JStr ''running'',
       d_message = JStr ''Exporting'', d_log = JStr ''line'' \<rparr> \<noteq> JStr ''terraform'' \<and>
   d_step \<lparr> d_type = JStr ''status'', d_step = JStr ''export'', d_status = JStr ''running'',
       d_message = JStr ''Exporting'', d_log = JStr ''line'' \<rparr> \<noteq> JStr ''agents'' \<and>
   executionSteps (handleWebSocketMessage
     \<lparr> d_type = JStr ''status'', d_step = JStr ''export'', d_status = JStr ''running'',
       d_message = JStr ''Exporting'', d_log = JStr ''line'' \<rparr> (handleExecute 0 initialState)) =
   [\<lparr> name = ''Terraform Export'', status = JStr ''pending'', message = JStr [], logs = [] \<rparr>,
    \<lparr> name = ''AI Agents Analysis'', status = JStr ''pending'', message = JStr [], logs = [] \<rparr>]"
  using handleWebSocketMessage_unknown_step_frame
    [of "\<lparr> d_type = JStr ''status'', d_step = JStr ''export'', d_status = JStr ''running'',
       d_message = JStr ''Exporting'', d_log = JStr ''line'' \<rparr>" "handleExecute 0 initialState"]
  by (simp add: handleExecute_def buildSteps_def terraformStep_def agentsStep_def
      initialState_def initialOptions_def)

section \<open>Log lines\<close>

text \<open>
  Claim C6. The logs of a step only grow, at the end, in arrival order. For any sequence
  of messages and any step index \<open>j\<close>, the list keeps its length and the step its name,
  and the logs afterwards are the logs before followed by the lines of the messages, one
  message after the other: exactly one line (its \<open>message\<close>) for each \<open>log\<close> message that
  matches step \<open>j\<close>, the \<open>log\<close> field of a matching \<open>status\<close> message when truthy, and
  nothing for any other message. No stored line is changed, dropped or moved.
\<close>

theorem log_lines_append_only_fifo:
  assumes "j < length (executionSteps st)"
  shows "length (executionSteps (handleMessages ds st)) = length (executionSteps st) \<and>
         name (executionSteps (handleMessages ds st) ! j) = name (executionSteps st ! j) \<and>
         logs (executionSteps (handleMessages ds st) ! j) =
           logs (executionSteps st ! j) @
           concat (map (\<lambda>d. linesAppended d (executionSteps st) j) ds)"
proof -
  have len: "length (executionSteps (handleMessages ds st)) = length (executionSteps st)"
    using handleMessages_names [of ds st] by (metis length_map)
  have nm: "name (executionSteps (handleMessages ds st) ! j) = name (executionSteps st ! j)"
    using handleMessages_names [of ds st] assms len by (metis nth_map)
  have "logs (executionSteps (handleMessages ds st) ! j) =
           logs (executionSteps st ! j) @
           concat (map (\<lambda>d. linesAppended d (executionSteps st) j) ds)"
    using assms
  proof (induction ds arbitrary: st)
    case Nil
    then show ?case by simp
  next
    case (Cons d ds)
    let ?st' = "handleWebSocketMessage d st"
    have j': "j < length (executionSteps ?st')"
      using Cons.prems by (simp add: handleWebSocketMessage_length)
    have same: "\<And>e. linesAppended e (executionSteps ?st') j = linesAppended e (executionSteps st) j"
      by (rule linesAppended_names) (rule handleWebSocketMessage_names)
    show ?case
      using Cons.IH [OF j'] handleWebSocketMessage_logs [OF Cons.prems, of d]
      by (simp add: same)
  qed
  with len nm show ?thesis by simp
qed

theorem log_lines_append_only_fifo_witness:
  "0 < length (executionSteps (handleExecute 0 initialState)) \<and>
   logs (executionSteps (handleMessages
     [\<lparr> d_type = JStr ''log'', d_step = JStr ''terraform'', d_status = JUndefined,
        d_message = JStr ''a'', d_log = JUndefined \<rparr>,
      \<lparr> d_type = JStr ''status'', d_step = JStr ''terraform'', d_status = JStr ''running'',
        d_message = JStr ''Exporting'', d_log = JStr ''b'' \<rparr>,
      \<lparr> d_type = JStr ''log'', d_step = JStr ''agents'', d_status = JUndefined,
        d_message = JStr ''c'', d_log = JUndefined \<rparr>,
      \<lparr> d_type = JStr ''log'', d_step = JStr ''terraform'', d_status = JUndefined,
        d_message = JStr ''d'', d_log = JUndefined \<rparr>]
     (handleExecute 0 initialState)) ! 0) = [JStr ''a'', JStr ''b'', JStr ''d'']"
  using log_lines_append_only_fifo [of 0 "handleExecute 0 initialState"
     "[\<lparr> d_type = JStr ''log'', d_step = JStr ''terraform'', d_status = JUndefined,
        d_message = JStr ''a'', d_log = JUndefined \<rparr>,
      \<lparr> d_type = JStr ''status'', d_step = JStr ''terraform'', d_status = JStr ''running'',
        d_message = JStr ''Exporting'', d_log = JStr ''b'' \<rparr>,
      \<lparr> d_type = JStr ''log'', d_step = JStr ''agents'', d_status = JUndefined,
        d_message = JStr ''c'', d_log = JUndefined \<rparr>,
      \<lparr> d_type = JStr ''log'', d_step = JStr ''terraform'', d_status = JUndefined,
        d_message = JStr ''d'', d_log = JUndefined \<rparr>]"]
  by (simp add: linesAppended_def handleExecute_def buildSteps_def terraformStep_def agentsStep_def
      initialState_def initialOptions_def findIndex_def stepMatches_def)

section \<open>The agent list of the start request\<close>

text \<open>
  Claim C1, as the code has it. \<open>agentsToRun\<close> always contains \<open>'report_generator'\<close>.
  When the selection omits it, it is appended, and is then the last element. When the
  selection already contains it, the selection is sent as it is, in the order the
  checkboxes were last ticked. The list is what \<open>handleExecute\<close> posts, joined with
  commas, as \<open>selected_agents\<close>. Nothing of this depends on \<open>runAgents\<close>.
\<close>

theorem agentsToRun_includes_report_generator:
  "''report_generator'' \<in> set (agentsToRun opts) \<and>
   (''report_generator'' \<notin> set (selectedAgents opts) \<longrightarrow>
      agentsToRun opts = selectedAgents opts @ [''report_generator''] \<and>
      last (agentsToRun opts) = ''report_generator'') \<and>
   (''report_generator'' \<in> set (selectedAgents opts) \<longrightarrow>
      agentsToRun opts = selectedAgents opts) \<and>
   last (effects (handleExecute now st)) = PostStart (startRequest (options st)) \<and>
   selected_agents (startRequest (options st)) = join '','' (agentsToRun (options st))"
  by (simp add: agentsToRun_def handleExecute_def startRequest_def)

theorem agentsToRun_includes_report_generator_witness:
  "''report_generator'' \<notin> set (selectedAgents (initialOptions\<lparr> selectedAgents := [''ucx_analyst''] \<rparr>)) \<and>
   agentsToRun (initialOptions\<lparr> selectedAgents := [''ucx_analyst''] \<rparr>) =
     [''ucx_analyst'', ''report_generator''] \<and>
   last (agentsToRun (initialOptions\<lparr> selectedAgents := [''ucx_analyst''] \<rparr>)) = ''report_generator'' \<and>
   ''report_generator'' \<in> set (selectedAgents initialOptions) \<and>
   agentsToRun initialOptions = [''terraform_reader'', ''ucx_analyst'', ''report_generator''] \<and>
   selected_agents (startRequest (options initialState)) =
     ''terraform_reader,ucx_analyst,report_generator''"
  using agentsToRun_includes_report_generator
      [of "initialOptions\<lparr> selectedAgents := [''ucx_analyst''] \<rparr>" 0 initialState]
    agentsToRun_includes_report_generator [of initialOptions 0 initialState]
  by (simp add: initialOptions_def initialState_def)

text \<open>
  The position is not guaranteed: unticking and ticking "Terraform Analysis" again moves
  \<open>'terraform_reader'\<close> behind \<open>'report_generator'\<close>, with the analysis stage enabled.
\<close>

theorem agentsToRun_last_counterexample:
  "runAgents (options (run [ClickAgent ''terraform_reader'', ClickAgent ''terraform_reader'']
      initialState)) \<and>
   agentsToRun (options (run [ClickAgent ''terraform_reader'', ClickAgent ''terraform_reader'']
      initialState)) = [''ucx_analyst'', ''report_generator'', ''terraform_reader''] \<and>
   last (agentsToRun (options (run [ClickAgent ''terraform_reader'', ClickAgent ''terraform_reader'']
      initialState))) \<noteq> ''report_generator''"
  by (simp add: clickAgent_def initialState_def initialOptions_def agentsToRun_def)

section \<open>The steps a run starts with\<close>

text \<open>
  Claim C3. \<open>handleExecute\<close> sets \<open>executionSteps\<close> to the "Terraform Export" step
  exactly when \<open>runTerraform\<close> is set, followed by the "AI Agents Analysis" step exactly
  when \<open>runAgents\<close> is set, each with status \<open>'pending'\<close>, an empty message and no logs,
  whatever the list held before.
\<close>

theorem handleExecute_initial_steps:
  "executionSteps (handleExecute now st) =
     (if runTerraform (options st)
      then [\<lparr> name = ''Terraform Export'', status = JStr ''pending'', message = JStr [], logs = [] \<rparr>]
      else []) @
     (if runAgents (options st)
      then [\<lparr> name = ''AI Agents Analysis'', status = JStr ''pending'', message = JStr [], logs = [] \<rparr>]
      else [])"
  by (simp add: handleExecute_def buildSteps_def terraformStep_def agentsStep_def)

theorem handleExecute_initial_steps_witness:
  "executionSteps (handleExecute 0 initialState) =
     [\<lparr> name = ''Terraform Export'', status = JStr ''pending'', message = JStr [], logs = [] \<rparr>,
      \<lparr> name = ''AI Agents Analysis'', status = JStr ''pending'', message = JStr [], logs = [] \<rparr>] \<and>
   executionSteps (handleExecute 0 (dispatch ClickRunTerraform initialState)) =
     [\<lparr> name = ''AI Agents Analysis'', status = JStr ''pending'', message = JStr [], logs = [] \<rparr>] \<and>
   executionSteps (handleExecute 0 (dispatch ClickRunAgents initialState)) =
     [\<lparr> name = ''Terraform Export'', status = JStr ''pending'', message = JStr [], logs = [] \<rparr>] \<and>
   executionSteps (handleExecute 0 (dispatch ClickRunAgents (dispatch ClickRunTerraform initialState))) = []"
  using handleExecute_initial_steps [of 0 initialState]
    handleExecute_initial_steps [of 0 "dispatch ClickRunTerraform initialState"]
    handleExecute_initial_steps [of 0 "dispatch ClickRunAgents initialState"]
    handleExecute_initial_steps [of 0 "dispatch ClickRunAgents (dispatch ClickRunTerraform initialState)"]
  by (simp add: initialState_def initialOptions_def)

section \<open>Step status under messages\<close>

lemma statusUpdater_status:
  "map status (statusUpdater d prev) =
     (if findIndex (stepMatches d) prev \<noteq> -1
      then (map status prev)[nat (findIndex (stepMatches d) prev) := d_status d]
      else map status prev)"
  by (simp add: statusUpdater_def Let_def map_update)

lemma logUpdater_status: "map status (logUpdater d prev) = map status prev"
proof (cases "findIndex (stepMatches d) prev = -1")
  case True
  then show ?thesis by (simp add: logUpdater_def)
next
  case False
  from findIndex_some(2) [OF False] show ?thesis
    using False by (simp add: logUpdater_def Let_def map_update list_update_same_conv)
qed

text \<open>
  Claim C2, as the code has it. The handler keeps no order on statuses. A \<open>status\<close>
  message that matches a step overwrites that step's status with the message's
  \<open>status\<close> field, whatever both are; every other step, and every step under any other
  message, keeps its status.
\<close>

theorem status_follows_status_messages:
  "map status (executionSteps (handleWebSocketMessage d st)) =
     (if d_type d = JStr ''status'' \<and> findIndex (stepMatches d) (executionSteps st) \<noteq> -1
      then (map status (executionSteps st))
             [nat (findIndex (stepMatches d) (executionSteps st)) := d_status d]
      else map status (executionSteps st))"
  by (simp add: handleWebSocketMessage_def statusUpdater_status logUpdater_status)

theorem status_follows_status_messages_witness:
  "map status (executionSteps (handleWebSocketMessage
      \<lparr> d_type = JStr ''status'', d_step = JStr ''agents'', d_status = JStr ''running'',
        d_message = JStr ''Analysing'', d_log = JUndefined \<rparr>
      (handleExecute 0 initialState))) = [JStr ''pending'', JStr ''running''] \<and>
   map status (executionSteps (handleWebSocketMessage
      \<lparr> d_type = JStr ''log'', d_step = JStr ''agents'', d_status = JStr ''running'',
        d_message = JStr ''line'', d_log = JUndefined \<rparr>
      (handleExecute 0 initialState))) = [JStr ''pending'', JStr ''pending'']"
  using status_follows_status_messages
      [of "\<lparr> d_type = JStr ''status'', d_step = JStr ''agents'', d_status = JStr ''running'',
        d_message = JStr ''Analysing'', d_log = JUndefined \<rparr>" "handleExecute 0 initialState"]
    status_follows_status_messages
      [of "\<lparr> d_type = JStr ''log'', d_step = JStr ''agents'', d_status = JStr ''running'',
        d_message = JStr ''line'', d_log = JUndefined \<rparr>" "handleExecute 0 initialState"]
  by (simp add: findIndex_def stepMatches_def handleExecute_def buildSteps_def
      terraformStep_def agentsStep_def initialState_def initialOptions_def)

text \<open>
  So a step that is \<open>'running'\<close> goes back to \<open>'pending'\<close> when a message says so.
\<close>

theorem status_regresses_counterexample:
  "status (executionSteps (handleMessages
      [\<lparr> d_type = JStr ''status'', d_step = JStr ''terraform'', d_status = JStr ''running'',
         d_message = JStr ''Exporting'', d_log = JUndefined \<rparr>]
      (handleExecute 0 initialState)) ! 0) = JStr ''running'' \<and>
   status (executionSteps (handleMessages
      [\<lparr> d_type = JStr ''status'', d_step = JStr ''terraform'', d_status = JStr ''running'',
         d_message = JStr ''Exporting'', d_log = JUndefined \<rparr>,
       \<lparr> d_type = JStr ''status'', d_step = JStr ''terraform'', d_status = JStr ''pending'',
         d_message = JStr ''Waiting'', d_log = JUndefined \<rparr>]
      (handleExecute 0 initialState)) ! 0) = JStr ''pending''"
  by (simp add: handleWebSocketMessage_def statusUpdater_def findIndex_def stepMatches_def
      handleExecute_def buildSteps_def terraformStep_def agentsStep_def
      initialState_def initialOptions_def)

section \<open>Terminal messages\<close>

text \<open>
  Claim C7. A message of type \<open>'completed'\<close>, \<open>'error'\<close> or \<open>'stopped'\<close> leaves
  \<open>executing\<close> false. A \<open>'completed'\<close> message also sets \<open>hasExistingReports\<close>; an
  \<open>'error'\<close> message stores its \<open>message\<close> in \<open>error\<close>; a \<open>'stopped'\<close> message
  stores \<open>'Execution stopped by user.'\<close> there. The alert (lines 256-277) displays the
  \<open>error\<close> cell whenever it is truthy.
\<close>

theorem terminal_event_ends_executing:
  assumes "d_type d = JStr ''completed'' \<or> d_type d = JStr ''error'' \<or> d_type d = JStr ''stopped''"
  shows "\<not> executing (handleWebSocketMessage d st) \<and>
         (d_type d = JStr ''completed'' \<longrightarrow> hasExistingReports (handleWebSocketMessage d st)) \<and>
         (d_type d = JStr ''error'' \<longrightarrow> error (handleWebSocketMessage d st) = d_message d) \<and>
         (d_type d = JStr ''stopped'' \<longrightarrow>
            error (handleWebSocketMessage d st) = JStr ''Execution stopped by user.'')"
  using assms by (auto simp: handleWebSocketMessage_def)

theorem terminal_event_ends_executing_witness:
  "executing (handleExecute 0 initialState) \<and>
   \<not> executing (handleWebSocketMessage
      \<lparr> d_type = JStr ''completed'', d_step = JUndefined, d_status = JUndefined,
        d_message = JUndefined, d_log = JUndefined \<rparr> (handleExecute 0 initialState)) \<and>
   hasExistingReports (handleWebSocketMessage
      \<lparr> d_type = JStr ''completed'', d_step = JUndefined, d_status = JUndefined,
        d_message = JUndefined, d_log = JUndefined \<rparr> (handleExecute 0 initialState)) \<and>
   \<not> executing (handleWebSocketMessage
      \<lparr> d_type = JStr ''error'', d_step = JUndefined, d_status = JUndefined,
        d_message = JStr ''Terraform export failed'', d_log = JUndefined \<rparr>
      (handleExecute 0 initialState)) \<and>
   error (handleWebSocketMessage
      \<lparr> d_type = JStr ''error'', d_step = JUndefined, d_status = JUndefined,
        d_message = JStr ''Terraform export failed'', d_log = JUndefined \<rparr>
      (handleExecute 0 initialState)) = JStr ''Terraform export failed'' \<and>
   \<not> executing (handleWebSocketMessage
      \<lparr> d_type = JStr ''stopped'', d_step = JUndefined, d_status = JUndefined,
        d_message = JUndefined, d_log = JUndefined \<rparr> (handleExecute 0 initialState)) \<and>
   error (handleWebSocketMessage
      \<lparr> d_type = JStr ''stopped'', d_step = JUndefined, d_status = JUndefined,
        d_message = JUndefined, d_log = JUndefined \<rparr> (handleExecute 0 initialState)) =
     JStr ''Execution stopped by user.''"
  using terminal_event_ends_executing
      [of "\<lparr> d_type = JStr ''completed'', d_step = JUndefined, d_status = JUndefined,
        d_message = JUndefined, d_log = JUndefined \<rparr>" "handleExecute 0 initialState"]
    terminal_event_ends_executing
      [of "\<lparr> d_type = JStr ''error'', d_step = JUndefined, d_status = JUndefined,
        d_message = JStr ''Terraform export failed'', d_log = JUndefined \<rparr>"
        "handleExecute 0 initialState"]
    terminal_event_ends_executing
      [of "\<lparr> d_type = JStr ''stopped'', d_step = JUndefined, d_status = JUndefined,
        d_message = JUndefined, d_log = JUndefined \<rparr>" "handleExecute 0 initialState"]
  by (simp add: handleExecute_def)

section \<open>Elapsed time\<close>

lemma executeTimerTick_never_positive:
  "now1 \<le> now2 \<Longrightarrow> elapsedTime (executeTimerTick now1 now2 st) \<le> 0"
  by (simp add: executeTimerTick_def div_nonpos_pos_le0)

text \<open>
  Claim C5 fails on the code. \<open>handleExecute\<close> starts an interval whose callback
  subtracts the current instant from itself, and clears it only when the request fails.
  Five seconds into a run started at instant 1000, that callback stores 0, where the
  interval of the effect stores 5.
\<close>

theorem executeTimerTick_shows_zero:
  "executing (handleExecute 1000 initialState) \<and>
   startTime (handleExecute 1000 initialState) = Some 1000 \<and>
   elapsedTime (executeTimerTick 6000 6000 (handleExecute 1000 initialState)) = 0 \<and>
   elapsedTime (effectTimerTick 6000 (handleExecute 1000 initialState)) = 5"
  by (simp add: executeTimerTick_def effectTimerTick_def effectTimerActive_def handleExecute_def)

section \<open>Existing reports\<close>

lemma loadReport_reports: "rs_reports (loadReport response st) = rs_reports st"
  by (cases response) (simp_all add: loadReport_def Let_def)

lemma loadReportsList_reports:
  "rs_reports (loadReportsList (Resolved reports) content rst) =
     filter (\<lambda>r. truthy (exists r)) reports"
  by (simp add: loadReportsList_def Let_def loadReport_reports split: option.splits)

text \<open>
  Claim C8, as the code has it. The check on mount sets \<open>hasExistingReports\<close> exactly
  when the listing holds an entry with a truthy \<open>exists\<close> field, and leaves it alone
  otherwise (also when the request fails); the results screen lists exactly those entries.
  But the flag is a cell of the client with two more writers: a \<open>'completed'\<close> message
  sets it, and \<open>handleExecute\<close> clears it, neither consulting the listing.
\<close>

theorem existing_reports_flag_writers:
  "(hasExistingReports (checkExistingReports response st) \<longleftrightarrow>
      hasExistingReports st \<or>
      (\<exists>reports. response = Resolved reports \<and> (\<exists>r \<in> set reports. truthy (exists r)))) \<and>
   rs_reports (loadReportsList (Resolved reports) content rst) =
      filter (\<lambda>r. truthy (exists r)) reports \<and>
   (rs_reports (loadReportsList (Resolved reports) content rst) \<noteq> [] \<longleftrightarrow>
      (\<exists>r \<in> set reports. truthy (exists r))) \<and>
   (hasExistingReports (handleWebSocketMessage d st) \<longleftrightarrow>
      hasExistingReports st \<or> d_type d = JStr ''completed'') \<and>
   \<not> hasExistingReports (handleExecute now st)"
proof -
  have a: "hasExistingReports (checkExistingReports response st) \<longleftrightarrow>
      hasExistingReports st \<or>
      (\<exists>reports. response = Resolved reports \<and> (\<exists>r \<in> set reports. truthy (exists r)))"
    by (cases response) (auto simp: checkExistingReports_def Let_def filter_empty_conv)
  have b: "rs_reports (loadReportsList (Resolved reports) content rst) \<noteq> [] \<longleftrightarrow>
      (\<exists>r \<in> set reports. truthy (exists r))"
    by (simp add: loadReportsList_reports filter_empty_conv)
  have c: "hasExistingReports (handleWebSocketMessage d st) \<longleftrightarrow>
      hasExistingReports st \<or> d_type d = JStr ''completed''"
    by (simp add: handleWebSocketMessage_def)
  have e: "\<not> hasExistingReports (handleExecute now st)"
    by (simp add: handleExecute_def)
  from a b c e loadReportsList_reports show ?thesis by blast
qed

theorem existing_reports_flag_writers_witness:
  "hasExistingReports (checkExistingReports (Resolved
      [\<lparr> agent = JStr ''terraform_reader'', filename = JStr ''terraform.md'', exists = JBool False \<rparr>,
       \<lparr> agent = JStr ''report_generator'', filename = JStr ''report.md'', exists = JBool True \<rparr>])
      initialState) \<and>
   \<not> hasExistingReports (checkExistingReports (Resolved
      [\<lparr> agent = JStr ''terraform_reader'', filename = JStr ''terraform.md'', exists = JBool False \<rparr>])
      initialState) \<and>
   \<not> hasExistingReports (checkExistingReports (Rejected JUndefined) initialState) \<and>
   rs_reports (loadReportsList (Resolved
      [\<lparr> agent = JStr ''terraform_reader'', filename = JStr ''terraform.md'', exists = JBool False \<rparr>,
       \<lparr> agent = JStr ''report_generator'', filename = JStr ''report.md'', exists = JBool True \<rparr>])
      (Resolved (JStr ''# Report'')) initialResults) =
     [\<lparr> agent = JStr ''report_generator'', filename = JStr ''report.md'', exists = JBool True \<rparr>]"
  using existing_reports_flag_writers
      [of "Resolved
      [\<lparr> agent = JStr ''terraform_reader'', filename = JStr ''terraform.md'', exists = JBool False \<rparr>,
       \<lparr> agent = JStr ''report_generator'', filename = JStr ''report.md'', exists = JBool True \<rparr>]"
       initialState
       "[\<lparr> agent = JStr ''terraform_reader'', filename = JStr ''terraform.md'', exists = JBool False \<rparr>,
       \<lparr> agent = JStr ''report_generator'', filename = JStr ''report.md'', exists = JBool True \<rparr>]"
       "Resolved (JStr ''# Report'')" initialResults]
    existing_reports_flag_writers
      [of "Resolved
      [\<lparr> agent = JStr ''terraform_reader'', filename = JStr ''terraform.md'', exists = JBool False \<rparr>]"
       initialState]
    existing_reports_flag_writers [of "Rejected JUndefined" initialState]
  by (simp add: initialState_def)

text \<open>
  The flag is set after a run although the only listing was empty, and cleared by
  "Run Again" although the listing held a report.
\<close>

theorem hasExistingReports_not_from_listing_counterexample:
  "hasExistingReports (run
      [ListingArrived (Resolved []),
       ClickStart 0,
       Receive \<lparr> d_type = JStr ''completed'', d_step = JUndefined, d_status = JUndefined,
                 d_message = JUndefined, d_log = JUndefined \<rparr>] initialState) \<and>
   \<not> hasExistingReports (run
      [ListingArrived (Resolved
         [\<lparr> agent = JStr ''report_generator'', filename = JStr ''report.md'',
            exists = JBool True \<rparr>]),
       ClickRunAgain 0] initialState)"
  by (simp add: checkExistingReports_def startDisabled_def allCompleted_def handleExecute_def
      handleWebSocketMessage_def initialState_def initialOptions_def)

section \<open>Starting a run\<close>

text \<open>
  The main button is guarded, and the \<open>catch\<close> block leaves the steps alone.
\<close>

lemma executing_disables_main_button: "executing st \<Longrightarrow> startDisabled st"
  by (simp add: startDisabled_def)

lemma startDisabled_blocks_main_button:
  "startDisabled st \<Longrightarrow> dispatch (ClickStart now) st = st"
  by simp

lemma handleExecuteCatch_result:
  "executionSteps (handleExecuteCatch detail st) = executionSteps st \<and>
   \<not> executing (handleExecuteCatch detail st) \<and>
   error (handleExecuteCatch detail st) =
     (if truthy detail then detail else JStr ''Failed to start execution'')"
  by (simp add: handleExecuteCatch_def js_or_def)

text \<open>
  Claim C4 fails on the code. "Run Again" is rendered whenever \<open>allCompleted\<close> holds and
  has no \<open>disabled\<close> property. Once status messages have marked every step completed, and
  before the \<open>'completed'\<close> message arrives, \<open>executing\<close> is still true, the main button
  is disabled, and a click on "Run Again" posts a second start request.
\<close>

theorem run_again_starts_while_executing:
  "executing (run
      [ClickStart 0,
       Receive \<lparr> d_type = JStr ''status'', d_step = JStr ''terraform'', d_status = JStr ''completed'',
                 d_message = JStr ''Export done'', d_log = JUndefined \<rparr>,
       Receive \<lparr> d_type = JStr ''status'', d_step = JStr ''agents'', d_status = JStr ''completed'',
                 d_message = JStr ''Analysis done'', d_log = JUndefined \<rparr>] initialState) \<and>
   startDisabled (run
      [ClickStart 0,
       Receive \<lparr> d_type = JStr ''status'', d_step = JStr ''terraform'', d_status = JStr ''completed'',
                 d_message = JStr ''Export done'', d_log = JUndefined \<rparr>,
       Receive \<lparr> d_type = JStr ''status'', d_step = JStr ''agents'', d_status = JStr ''completed'',
                 d_message = JStr ''Analysis done'', d_log = JUndefined \<rparr>] initialState) \<and>
   allCompleted (run
      [ClickStart 0,
       Receive \<lparr> d_type = JStr ''status'', d_step = JStr ''terraform'', d_status = JStr ''completed'',
                 d_message = JStr ''Export done'', d_log = JUndefined \<rparr>,
       Receive \<lparr> d_type = JStr ''status'', d_step = JStr ''agents'', d_status = JStr ''completed'',
                 d_message = JStr ''Analysis done'', d_log = JUndefined \<rparr>] initialState) \<and>
   length (startRequests (effects (run
      [ClickStart 0,
       Receive \<lparr> d_type = JStr ''status'', d_step = JStr ''terraform'', d_status = JStr ''completed'',
                 d_message = JStr ''Export done'', d_log = JUndefined \<rparr>,
       Receive \<lparr> d_type = JStr ''status'', d_step = JStr ''agents'', d_status = JStr ''completed'',
                 d_message = JStr ''Analysis done'', d_log = JUndefined \<rparr>] initialState))) = 1 \<and>
   length (startRequests (effects (run
      [ClickStart 0,
       Receive \<lparr> d_type = JStr ''status'', d_step = JStr ''terraform'', d_status = JStr ''completed'',
                 d_message = JStr ''Export done'', d_log = JUndefined \<rparr>,
       Receive \<lparr> d_type = JStr ''status'', d_step = JStr ''agents'', d_status = JStr ''completed'',
                 d_message = JStr ''Analysis done'', d_log = JUndefined \<rparr>,
       ClickRunAgain 5000] initialState))) = 2"
  by (simp add: startDisabled_def allCompleted_def handleExecute_def handleWebSocketMessage_def
      statusUpdater_def findIndex_def stepMatches_def buildSteps_def terraformStep_def
      agentsStep_def initialState_def initialOptions_def)

text \<open>
  Claim C10 fails on the code, by the same unguarded button. With a report listed on
  mount, "Run Again" is rendered; after both stage checkboxes are unticked the main
  button is disabled, and a click on "Run Again" posts a request with neither stage.
\<close>

theorem run_again_posts_request_without_stage:
  "startDisabled (run
      [ListingArrived (Resolved
         [\<lparr> agent = JStr ''report_generator'', filename = JStr ''report.md'',
            exists = JBool True \<rparr>]),
       ClickRunTerraform,
       ClickRunAgents] initialState) \<and>
   \<not> executing (run
      [ListingArrived (Resolved
         [\<lparr> agent = JStr ''report_generator'', filename = JStr ''report.md'',
            exists = JBool True \<rparr>]),
       ClickRunTerraform,
       ClickRunAgents] initialState) \<and>
   map (\<lambda>r. (run_terraform r, run_agents r)) (startRequests (effects (run
      [ListingArrived (Resolved
         [\<lparr> agent = JStr ''report_generator'', filename = JStr ''report.md'',
            exists = JBool True \<rparr>]),
       ClickRunTerraform,
       ClickRunAgents,
       ClickRunAgain 0] initialState))) = [(False, False)]"
  by (simp add: startDisabled_def allCompleted_def handleExecute_def checkExistingReports_def
      startRequest_def initialState_def initialOptions_def)

end
